theory Spec2Isabelle
  imports Complex_Main
begin

section \<open>Numeric model\<close>

text \<open>
  The DSP code computes on \<open>float64\<close> values and stores samples as \<open>float32\<close>.
  Both are modelled by the real numbers they denote: \<open>float32(x)\<close> and \<open>float64(x)\<close>
  are the identity, \<open>math.Pow(10, x)\<close> is \<open>10 powr x\<close>, \<open>math.Pow(x, 2)\<close> is
  \<open>x\<^sup>2\<close>. Rounding, overflow to infinity and NaN are outside this model, and a
  division whose divisor can be zero in the source is guarded by a hypothesis
  where a theorem depends on it.
\<close>

section \<open>Biquad filter (internal/audio/dsp, \<open>BiquadFilter\<close>)\<close>

record BiquadFilter =
  b0 :: real
  b1 :: real
  b2 :: real
  a1 :: real
  a2 :: real
  x1L :: real
  x2L :: real
  y1L :: real
  y2L :: real
  x1R :: real
  x2R :: real
  y1R :: real
  y2R :: real
  sampleRate :: int

definition NewBiquadFilter :: "int \<Rightarrow> BiquadFilter" where
  "NewBiquadFilter sr =
     \<lparr>b0 = 1, b1 = 0, b2 = 0, a1 = 0, a2 = 0,
      x1L = 0, x2L = 0, y1L = 0, y2L = 0,
      x1R = 0, x2R = 0, y1R = 0, y2R = 0,
      sampleRate = sr\<rparr>"

definition SetCoefficients ::
  "BiquadFilter \<Rightarrow> real \<Rightarrow> real \<Rightarrow> real \<Rightarrow> real \<Rightarrow> real \<Rightarrow> BiquadFilter" where
  "SetCoefficients f c0 c1 c2 d1 d2 = f\<lparr>b0 := c0, b1 := c1, b2 := c2, a1 := d1, a2 := d2\<rparr>"

text \<open>
  The body of \<open>for i := range samples\<close> in \<open>BiquadFilter.Process\<close>: the locals
  \<open>(x1, x2, y1, y2)\<close> are threaded through the samples, each sample is replaced by
  \<open>y0\<close>. The result is the final locals and the rewritten slice.
\<close>

fun biquad_loop ::
  "BiquadFilter \<Rightarrow> real \<times> real \<times> real \<times> real \<Rightarrow> real list \<Rightarrow> (real \<times> real \<times> real \<times> real) \<times> real list" where
  "biquad_loop f (x1, x2, y1, y2) [] = ((x1, x2, y1, y2), [])"
| "biquad_loop f (x1, x2, y1, y2) (x0 # rest) =
     (let y0 = b0 f * x0 + b1 f * x1 + b2 f * x2 - a1 f * y1 - a2 f * y2;
          (st, out) = biquad_loop f (x0, x1, y0, y1) rest
      in (st, y0 # out))"

text \<open>\<open>BiquadFilter.Process\<close>: mono samples use the left-channel history.\<close>

definition BiquadFilter_Process :: "BiquadFilter \<Rightarrow> real list \<Rightarrow> BiquadFilter \<times> real list" where
  "BiquadFilter_Process f samples =
     (let ((x1, x2, y1, y2), out) = biquad_loop f (x1L f, x2L f, y1L f, y2L f) samples
      in (f\<lparr>x1L := x1, x2L := x2, y1L := y1, y2L := y2\<rparr>, out))"

definition BiquadFilter_Reset :: "BiquadFilter \<Rightarrow> BiquadFilter" where
  "BiquadFilter_Reset f = f\<lparr>x1L := 0, x2L := 0, y1L := 0, y2L := 0,
                       x1R := 0, x2R := 0, y1R := 0, y2R := 0\<rparr>"



section \<open>Equalizer (internal/audio/dsp, \<open>Equalizer\<close>)\<close>

datatype dsp_error = ErrInvalidParameter | ErrEffectNotFound

record EqualizerBand =
  Frequency :: real
  Gain :: real
  Q :: real

text \<open>
  The arrays \<open>bands [10]EqualizerBand\<close> and \<open>filters [10]*BiquadFilter\<close> are lists;
  every constructor and method below keeps them at length ten. The equalizer's own
  \<open>sampleRate\<close> field is \<open>eq_sampleRate\<close> and its \<open>enabled\<close> field is \<open>eq_enabled\<close>.
\<close>

record Equalizer =
  bands :: "EqualizerBand list"
  filters :: "BiquadFilter list"
  eq_enabled :: bool
  eq_sampleRate :: int

text \<open>\<open>Equalizer.updateFilter\<close>: peaking-EQ coefficients of one band, normalised by \<open>a0\<close>.\<close>

definition updateFilter :: "Equalizer \<Rightarrow> int \<Rightarrow> Equalizer" where
  "updateFilter eq band =
     (if band < 0 \<or> band \<ge> 10 then eq
      else
        let b = bands eq ! nat band;
            gain = 10 powr (Gain b / 20);
            omega = 2 * pi * Frequency b / real_of_int (eq_sampleRate eq);
            cos_omega = cos omega;
            sin_omega = sin omega;
            alpha = sin_omega / (2 * Q b);
            a = gain;
            b0' = 1 + alpha * a;
            b1' = - 2 * cos_omega;
            b2' = 1 - alpha * a;
            a0' = 1 + alpha / a;
            a1' = - 2 * cos_omega;
            a2' = 1 - alpha / a
        in eq\<lparr>filters := (filters eq)
                 [nat band := SetCoefficients (filters eq ! nat band)
                                (b0' / a0') (b1' / a0') (b2' / a0') (a1' / a0') (a2' / a0')]\<rparr>)"

definition frequencies :: "real list" where
  "frequencies = [31.25, 62.5, 125, 250, 500, 1000, 2000, 4000, 8000, 16000]"

text \<open>
  \<open>NewEqualizer\<close>: the struct starts with zero-valued bands; the loop fills band \<open>i\<close>,
  allocates filter \<open>i\<close> and derives its coefficients. (The nil filter pointers of the
  fresh array are written before they are read; the model holds fresh filters there.)
\<close>

definition NewEqualizer :: "int \<Rightarrow> Equalizer" where
  "NewEqualizer sr =
     fold (\<lambda>i eq. updateFilter
                    (eq\<lparr>bands := (bands eq)[i := \<lparr>Frequency = frequencies ! i, Gain = 0, Q = 0.7\<rparr>],
                        filters := (filters eq)[i := NewBiquadFilter sr]\<rparr>)
                    (int i))
          [0..<10]
          \<lparr>bands = replicate 10 \<lparr>Frequency = 0, Gain = 0, Q = 0\<rparr>,
           filters = replicate 10 (NewBiquadFilter sr),
           eq_enabled = False,
           eq_sampleRate = sr\<rparr>"



text \<open>\<open>Equalizer.SetAllBands\<close> takes a \<open>[10]float64\<close>: a list of ten gains.\<close>

definition SetAllBands :: "Equalizer \<Rightarrow> real list \<Rightarrow> Equalizer" where
  "SetAllBands eq gains =
     fold (\<lambda>i eq.
             let gain = gains ! i;
                 gain' = (if gain < - 12 then - 12 else if gain > 12 then 12 else gain)
             in updateFilter (eq\<lparr>bands := (bands eq)[i := (bands eq ! i)\<lparr>Gain := gain'\<rparr>]\<rparr>) (int i))
          [0..<10] eq"

definition GetAllBands :: "Equalizer \<Rightarrow> real list" where
  "GetAllBands eq = map (\<lambda>i. Gain (bands eq ! i)) [0..<10]"


definition Equalizer_IsEnabled :: "Equalizer \<Rightarrow> bool" where
  "Equalizer_IsEnabled eq = eq_enabled eq"






text \<open>The \<open>switch preset\<close> of \<open>Equalizer.LoadPreset\<close>; \<open>None\<close> is its \<open>default: return\<close>.\<close>

definition preset_gains :: "string \<Rightarrow> real list option" where
  "preset_gains preset =
     (if preset = ''flat'' then Some [0, 0, 0, 0, 0, 0, 0, 0, 0, 0]
      else if preset = ''rock'' then Some [5, 4, 3, 1, - 1, - 1, 1, 3, 4, 5]
      else if preset = ''pop'' then Some [- 2, - 1, 0, 2, 4, 4, 2, 0, - 1, - 2]
      else if preset = ''jazz'' then Some [0, 0, 0, 2, 4, 4, 2, 0, 0, 0]
      else if preset = ''classical'' then Some [0, 0, 0, 0, 0, 0, - 2, - 2, - 2, - 3]
      else if preset = ''dance'' then Some [6, 5, 2, 0, 0, - 2, - 2, - 2, 0, 0]
      else if preset = ''bass_boost'' then Some [8, 6, 4, 2, 0, 0, 0, 0, 0, 0]
      else if preset = ''treble_boost'' then Some [0, 0, 0, 0, 0, 0, 2, 4, 6, 8]
      else if preset = ''vocal'' then Some [- 2, - 3, - 3, 1, 4, 4, 3, 1, 0, - 1]
      else if preset = ''powerful'' then Some [6, 5, 0, - 2, 1, 3, 5, 6, 4, 0]
      else None)"

definition LoadPreset :: "Equalizer \<Rightarrow> string \<Rightarrow> Equalizer" where
  "LoadPreset eq preset =
     (case preset_gains preset of None \<Rightarrow> eq | Some gains \<Rightarrow> SetAllBands eq gains)"

definition GetPresets :: "string list" where
  "GetPresets = [''flat'', ''rock'', ''pop'', ''jazz'', ''classical'', ''dance'',
                 ''bass_boost'', ''treble_boost'', ''vocal'', ''powerful'']"


subsection \<open>Predicates on equalizer states\<close>

definition coeffs_of :: "BiquadFilter \<Rightarrow> real \<times> real \<times> real \<times> real \<times> real" where
  "coeffs_of f = (b0 f, b1 f, b2 f, a1 f, a2 f)"




text \<open>One pass of the loops that write band \<open>i\<close> and filter \<open>i\<close> and then update the filter.\<close>

definition gstep :: "Equalizer \<Rightarrow> nat \<Rightarrow> EqualizerBand \<Rightarrow> BiquadFilter \<Rightarrow> Equalizer" where
  "gstep eq i nb nf =
     updateFilter (eq\<lparr>bands := (bands eq)[i := nb], filters := (filters eq)[i := nf]\<rparr>) (int i)"






section \<open>Replay gain (internal/audio/dsp, \<open>ReplayGain\<close>)\<close>

record ReplayGain =
  trackGain :: real
  trackPeak :: real
  albumGain :: real
  albumPeak :: real
  mode :: string
  preamp :: real
  rg_enabled :: bool



definition SetAlbumGain :: "ReplayGain \<Rightarrow> real \<Rightarrow> real \<Rightarrow> ReplayGain" where
  "SetAlbumGain r gain peak = r\<lparr>albumGain := gain, albumPeak := peak\<rparr>"


definition SetPreamp :: "ReplayGain \<Rightarrow> real \<Rightarrow> ReplayGain" where
  "SetPreamp r x = r\<lparr>preamp := x\<rparr>"








section \<open>Crossfader (internal/audio/dsp, \<open>Crossfader\<close>)\<close>

record Crossfader =
  cf_position :: real
  curve :: string
  cf_enabled :: bool



definition SetCurve :: "Crossfader \<Rightarrow> string \<Rightarrow> Crossfader" where
  "SetCurve c cv = c\<lparr>curve := cv\<rparr>"





section \<open>Player (internal/audio, \<open>Player\<close>)\<close>

datatype PlayerState = StateStopped | StatePlaying | StatePaused | StateBuffering | StateError

datatype PlayerEvent =
  EventStateChanged | EventTrackChanged | EventPositionChanged
| EventVolumeChanged | EventTrackFinished | EventError

datatype decoder_error = ErrUnsupportedFormat | ErrInvalidData | ErrSeekNotSupported | ErrOpenFailed

text \<open>
  The errors the modelled methods return: the three package-level errors, the two
  \<open>errors.New\<close> values of \<open>Load\<close> and \<open>Seek\<close>, and the two wrapped decoder errors.
\<close>

datatype player_error =
  ErrNoTrackLoaded
| ErrAlreadyPlaying
| ErrNotPlaying
| ErrTrackIsNil
| ErrPositionOutOfRange
| ErrCreateDecoder decoder_error
| ErrCreateNextDecoder decoder_error

text \<open>
  Modelled from the spec: the declaration of \<open>domain.Track\<close> is missing from the
  sources. The player reads \<open>FilePath\<close> and reads and writes \<open>Duration\<close>; the spec
  describes a track as a file path with a known duration if any. A \<open>time.Duration\<close>
  is a number of nanoseconds, an \<open>int\<close> here (the player only compares durations).
\<close>

record Track =
  FilePath :: string
  Duration :: int

text \<open>
  A decoder is used through the \<open>decoder.Decoder\<close> interface. The player depends on
  its identity, on \<open>Duration()\<close> and on whether \<open>Seek(position)\<close> returns nil.
\<close>

record Decoder =
  dec_id :: nat
  dec_duration :: int
  dec_seek_ok :: "int \<Rightarrow> bool"

text \<open>
  \<open>decoder.CreateDecoderForFile\<close> opens and parses a file: its outcome for each path
  is a parameter of the model.
\<close>

type_synonym decoder_factory = "string \<Rightarrow> decoder_error + Decoder"

datatype event_data = StateData PlayerState | TrackData "Track option" | PositionData int

text \<open>
  Calls the player makes on its collaborators (decoders, the output, the listeners,
  the logger, a spawned fade-out), recorded in the order they are made.
\<close>

datatype effect =
  DecoderClose Decoder
| DecoderSeek Decoder int
| DecoderDecode Decoder nat
| OutputPause
| OutputResume
| OutputFlush
| Notify PlayerEvent event_data
| SpawnFadeOut int
| LogError

text \<open>
  The fields of \<open>Player\<close> that the modelled methods read or write. \<open>output_open\<close> is whether
  an output device is open (\<open>p.output != nil\<close>); \<open>prebuffer_len\<close> is \<open>len(p.prebuffer)\<close>.
  The channels \<open>playing\<close>, \<open>stop\<close> and \<open>seekRequest\<close> have capacity one: \<open>None\<close> is
  the empty channel, \<open>Some v\<close> the channel holding \<open>v\<close>. The mutex is not modelled:
  every method below runs under \<open>p.mu\<close> and is one atomic step.
\<close>

record Player =
  state :: PlayerState
  currentTrack :: "Track option"
  nextTrack :: "Track option"
  position :: int
  duration :: int
  decoder :: "Decoder option"
  nextDecoder :: "Decoder option"
  output_open :: bool
  prebuffer_len :: nat
  playing :: "bool option"
  stop :: "bool option"
  seekRequest :: "int option"
  gapless :: bool
  fadeOnPause :: bool
  fadeDuration :: int
  effects :: "effect list"

text \<open>\<open>NewPlayer\<close>; the argument is whether \<open>initializeOutput\<close> succeeded.\<close>

definition NewPlayer :: "bool \<Rightarrow> Player" where
  "NewPlayer out =
     \<lparr>state = StateStopped, currentTrack = None, nextTrack = None,
      position = 0, duration = 0, decoder = None, nextDecoder = None,
      output_open = out, prebuffer_len = 0,
      playing = None, stop = None, seekRequest = None,
      gapless = True, fadeOnPause = True, fadeDuration = 200000000,
      effects = []\<rparr>"

definition emit :: "Player \<Rightarrow> effect list \<Rightarrow> Player" where
  "emit p es = p\<lparr>effects := effects p @ es\<rparr>"

definition setState :: "Player \<Rightarrow> PlayerState \<Rightarrow> Player" where
  "setState p s =
     (if state p \<noteq> s then emit (p\<lparr>state := s\<rparr>) [Notify EventStateChanged (StateData s)]
      else p)"

text \<open>The non-blocking send \<open>select { case ch <- v: default: }\<close> on a channel of capacity one.\<close>

definition try_send :: "'a option \<Rightarrow> 'a \<Rightarrow> 'a option" where
  "try_send ch v = (case ch of None \<Rightarrow> Some v | Some w \<Rightarrow> Some w)"

definition Load :: "decoder_factory \<Rightarrow> Player \<Rightarrow> Track option \<Rightarrow> player_error option \<times> Player" where
  "Load create p track =
     (case track of
        None \<Rightarrow> (Some ErrTrackIsNil, p)
      | Some t \<Rightarrow>
          let p1 = (case decoder p of
                      None \<Rightarrow> p
                    | Some d \<Rightarrow> emit (p\<lparr>decoder := None\<rparr>) [DecoderClose d])
          in case create (FilePath t) of
               Inl e \<Rightarrow> (Some (ErrCreateDecoder e), p1)
             | Inr dec \<Rightarrow>
                 let t' = (if Duration t = 0 then t\<lparr>Duration := dec_duration dec\<rparr> else t);
                     p2 = p1\<lparr>decoder := Some dec, currentTrack := Some t',
                             position := 0, duration := dec_duration dec\<rparr>;
                     p3 = setState p2 StateStopped
                 in (None, emit p3 [Notify EventTrackChanged (TrackData (Some t'))]))"

text \<open>
  \<open>Play\<close>. The send \<open>p.playing <- true\<close> blocks while the channel is full; a call
  that blocks there has not returned: \<open>None\<close>.
\<close>

definition Play :: "Player \<Rightarrow> (player_error option \<times> Player) option" where
  "Play p =
     (if decoder p = None then Some (Some ErrNoTrackLoaded, p)
      else case state p of
             StatePlaying \<Rightarrow> Some (Some ErrAlreadyPlaying, p)
           | StatePaused \<Rightarrow>
               let p1 = (if output_open p then emit p [OutputResume] else p);
                   p2 = setState p1 StatePlaying
               in if playing p2 \<noteq> None then None
                  else Some (None, p2\<lparr>playing := Some True\<rparr>)
           | StateStopped \<Rightarrow>
               let p1 = setState p StatePlaying
               in if playing p1 \<noteq> None then None
                  else let p2 = p1\<lparr>playing := Some True\<rparr>
                       in Some (None, if output_open p2 then emit p2 [OutputResume] else p2)
           | _ \<Rightarrow> Some (None, p))"

definition Pause :: "Player \<Rightarrow> player_error option \<times> Player" where
  "Pause p =
     (if state p \<noteq> StatePlaying then (Some ErrNotPlaying, p)
      else
        let p1 = (if fadeOnPause p then emit p [SpawnFadeOut (fadeDuration p)] else p);
            p2 = (if output_open p1 then emit p1 [OutputPause] else p1)
        in (None, setState p2 StatePaused))"

definition Stop :: "Player \<Rightarrow> player_error option \<times> Player" where
  "Stop p =
     (if state p = StateStopped then (None, p)
      else
        let p1 = p\<lparr>stop := try_send (stop p) True\<rparr>;
            p2 = (if output_open p1 then emit p1 [OutputPause, OutputFlush] else p1);
            p3 = p2\<lparr>position := 0\<rparr>
        in (None, setState p3 StateStopped))"

definition Seek :: "Player \<Rightarrow> int \<Rightarrow> player_error option \<times> Player" where
  "Seek p pos =
     (if decoder p = None then (Some ErrNoTrackLoaded, p)
      else if pos < 0 \<or> pos > duration p then (Some ErrPositionOutOfRange, p)
      else (None, p\<lparr>seekRequest := try_send (seekRequest p) pos\<rparr>))"

definition GetState :: "Player \<Rightarrow> PlayerState" where
  "GetState p = state p"

definition GetPosition :: "Player \<Rightarrow> int" where
  "GetPosition p = position p"

definition GetDuration :: "Player \<Rightarrow> int" where
  "GetDuration p = duration p"

definition SetNextTrack :: "decoder_factory \<Rightarrow> Player \<Rightarrow> Track option \<Rightarrow> player_error option \<times> Player" where
  "SetNextTrack create p track =
     (case track of
        None \<Rightarrow>
          let p1 = p\<lparr>nextTrack := None\<rparr>
          in (None, case nextDecoder p1 of
                      None \<Rightarrow> p1
                    | Some d \<Rightarrow> emit (p1\<lparr>nextDecoder := None\<rparr>) [DecoderClose d])
      | Some t \<Rightarrow>
          (case create (FilePath t) of
             Inl e \<Rightarrow> (Some (ErrCreateNextDecoder e), p)
           | Inr dec \<Rightarrow>
               let p1 = p\<lparr>nextTrack := Some t, nextDecoder := Some dec\<rparr>
               in (None, if gapless p1 \<and> prebuffer_len p1 > 0
                         then emit p1 [DecoderDecode dec (prebuffer_len p1)] else p1)))"

text \<open>
  The playback loop's \<open>case <-p.stop\<close>: enabled when the channel holds a value
  (\<open>None\<close> otherwise); it empties the channel and tears the decoder down.
\<close>

definition loop_stop :: "Player \<Rightarrow> Player option" where
  "loop_stop p =
     (case stop p of
        None \<Rightarrow> None
      | Some _ \<Rightarrow>
          let p1 = p\<lparr>stop := None\<rparr>
          in Some (case decoder p1 of
                     None \<Rightarrow> p1
                   | Some d \<Rightarrow> emit (p1\<lparr>decoder := None\<rparr>) [DecoderClose d]))"

text \<open>The playback loop's \<open>case position := <-p.seekRequest\<close>.\<close>

definition loop_seek :: "Player \<Rightarrow> Player option" where
  "loop_seek p =
     (case seekRequest p of
        None \<Rightarrow> None
      | Some pos \<Rightarrow>
          let p1 = p\<lparr>seekRequest := None\<rparr>
          in Some (case decoder p1 of
                     None \<Rightarrow> p1
                   | Some d \<Rightarrow>
                       if dec_seek_ok d pos
                       then emit (p1\<lparr>position := pos\<rparr>)
                              [DecoderSeek d pos, Notify EventPositionChanged (PositionData pos)]
                       else emit p1 [DecoderSeek d pos, LogError]))"

text \<open>
  The same request serviced inside \<open>processAudio\<close>, whose loop polls the channel
  before each decode; \<open>dec\<close> is the decoder that \<open>processAudio\<close> read on entry.
\<close>

definition processAudio_seek :: "Decoder \<Rightarrow> Player \<Rightarrow> Player option" where
  "processAudio_seek dec p =
     (case seekRequest p of
        None \<Rightarrow> None
      | Some pos \<Rightarrow>
          let p1 = p\<lparr>seekRequest := None\<rparr>
          in Some (if dec_seek_ok dec pos
                   then emit (p1\<lparr>position := pos\<rparr>) [DecoderSeek dec pos]
                   else emit p1 [DecoderSeek dec pos, LogError]))"

subsection \<open>A concrete session\<close>

text \<open>
  A ten-second MP3 that opens and seeks anywhere in range, and a text file for which
  no decoder exists.
\<close>

definition song_decoder :: Decoder where
  "song_decoder = \<lparr>dec_id = 1, dec_duration = 10000000000, dec_seek_ok = (\<lambda>pos. True)\<rparr>"

definition disk :: decoder_factory where
  "disk path = (if path = ''song.mp3'' then Inr song_decoder else Inl ErrUnsupportedFormat)"

definition song_track :: Track where
  "song_track = \<lparr>FilePath = ''song.mp3'', Duration = 0\<rparr>"

definition notes_track :: Track where
  "notes_track = \<lparr>FilePath = ''notes.txt'', Duration = 0\<rparr>"

definition loaded :: Player where
  "loaded = snd (Load disk (NewPlayer True) (Some song_track))"

text \<open>The song is playing when loading the text file fails.\<close>

definition playing_failed_load :: Player where
  "playing_failed_load = snd (Load disk (snd (the (Play loaded))) (Some notes_track))"

text \<open>Two seeks, to 3 s and then to 7 s, before the playback loop has run.\<close>

definition two_seeks :: Player where
  "two_seeks = snd (Seek (snd (Seek loaded 3000000000)) 7000000000)"

text \<open>The loaded song, never played, after a seek to 5 s that the playback loop has serviced.\<close>

definition stopped_at_5s :: Player where
  "stopped_at_5s = the (loop_seek (snd (Seek loaded 5000000000)))"

section \<open>Chunked filtering\<close>

lemma biquad_loop_append:
  "biquad_loop f st (xs @ ys) =
     (let (st1, o1) = biquad_loop f st xs; (st2, o2) = biquad_loop f st1 ys
      in (st2, o1 @ o2))"
proof (induction xs arbitrary: st)
  case Nil
  obtain x1 x2 y1 y2 where "st = (x1, x2, y1, y2)" by (cases st) auto
  then show ?case by (simp split: prod.splits)
next
  case (Cons x xs)
  obtain x1 x2 y1 y2 where st: "st = (x1, x2, y1, y2)" by (cases st) auto
  show ?case
    unfolding st by (simp add: Cons.IH Let_def split: prod.splits)
qed

lemma biquad_loop_coeffs:
  "b0 g = b0 f \<Longrightarrow> b1 g = b1 f \<Longrightarrow> b2 g = b2 f \<Longrightarrow> a1 g = a1 f \<Longrightarrow> a2 g = a2 f
   \<Longrightarrow> biquad_loop g st xs = biquad_loop f st xs"
proof (induction xs arbitrary: st)
  case Nil
  obtain x1 x2 y1 y2 where "st = (x1, x2, y1, y2)" by (cases st) auto
  then show ?case by simp
next
  case (Cons x xs)
  obtain x1 x2 y1 y2 where st: "st = (x1, x2, y1, y2)" by (cases st) auto
  show ?case unfolding st using Cons by simp
qed

text \<open>
  C7. Filtering a signal in one call of \<open>BiquadFilter.Process\<close> gives the same output
  samples and the same final filter as filtering its first chunk and then its second
  chunk with the filter left by the first call: the history \<open>(x1, x2, y1, y2)\<close> is
  all that is carried over. In the real-number model the two outputs are equal.
\<close>

theorem BiquadFilter_Process_chunk_invariant:
  "BiquadFilter_Process f (xs @ ys) =
     (let (f1, o1) = BiquadFilter_Process f xs; (f2, o2) = BiquadFilter_Process f1 ys in (f2, o1 @ o2))"
proof -
  obtain st1 o1 where l1: "biquad_loop f (x1L f, x2L f, y1L f, y2L f) xs = (st1, o1)"
    by (cases "biquad_loop f (x1L f, x2L f, y1L f, y2L f) xs") auto
  obtain p1 p2 q1 q2 where st1: "st1 = (p1, p2, q1, q2)" by (cases st1) auto
  define f1 where "f1 = f\<lparr>x1L := p1, x2L := p2, y1L := q1, y2L := q2\<rparr>"
  obtain st2 o2 where l2: "biquad_loop f st1 ys = (st2, o2)"
    by (cases "biquad_loop f st1 ys") auto
  obtain r1 r2 s1 s2 where st2: "st2 = (r1, r2, s1, s2)" by (cases st2) auto
  have same: "biquad_loop f1 st1 ys = biquad_loop f st1 ys"
    by (rule biquad_loop_coeffs) (simp_all add: f1_def)
  have whole: "biquad_loop f (x1L f, x2L f, y1L f, y2L f) (xs @ ys) = (st2, o1 @ o2)"
    by (simp add: biquad_loop_append l1 l2)
  have P1: "BiquadFilter_Process f xs = (f1, o1)"
    by (simp add: BiquadFilter_Process_def l1 st1 f1_def)
  have P2: "BiquadFilter_Process f1 ys = (f\<lparr>x1L := r1, x2L := r2, y1L := s1, y2L := s2\<rparr>, o2)"
    using same l2 by (simp add: BiquadFilter_Process_def st1 st2 f1_def)
  have P: "BiquadFilter_Process f (xs @ ys) = (f\<lparr>x1L := r1, x2L := r2, y1L := s1, y2L := s2\<rparr>, o1 @ o2)"
    by (simp add: BiquadFilter_Process_def whole st2)
  show ?thesis by (simp add: P P1 P2)
qed

section \<open>Equalizer: invariants\<close>


lemma updateFilter_bands [simp]: "bands (updateFilter eq i) = bands eq"
  by (simp add: updateFilter_def Let_def)

lemma updateFilter_enabled [simp]: "eq_enabled (updateFilter eq i) = eq_enabled eq"
  by (simp add: updateFilter_def Let_def)

lemma updateFilter_sampleRate [simp]: "eq_sampleRate (updateFilter eq i) = eq_sampleRate eq"
  by (simp add: updateFilter_def Let_def)

lemma updateFilter_length [simp]: "length (filters (updateFilter eq i)) = length (filters eq)"
  by (simp add: updateFilter_def Let_def)


lemma coeffs_of_SetCoefficients [simp]:
  "coeffs_of (SetCoefficients f c0 c1 c2 d1 d2) = (c0, c1, c2, d1, d2)"
  by (simp add: coeffs_of_def SetCoefficients_def)




lemma gstep_lengths [simp]:
  "length (bands (gstep eq i nb nf)) = length (bands eq)"
  "length (filters (gstep eq i nb nf)) = length (filters eq)"
  "eq_sampleRate (gstep eq i nb nf) = eq_sampleRate eq"
  "eq_enabled (gstep eq i nb nf) = eq_enabled eq"
  by (simp_all add: gstep_def)






lemma set_upt10: "set [0..<10] \<subseteq> {..<10}"
  by auto

















text \<open>
  C10. \<open>LoadPreset\<close> with a name that is not one of the ten names of \<open>GetPresets\<close>
  returns the equalizer as it was: every band, every filter coefficient and every
  other field is unchanged. The method has no error result.
\<close>

theorem LoadPreset_unknown_noop:
  assumes "preset \<notin> set GetPresets"
  shows "LoadPreset eq preset = eq"
  using assms by (simp add: LoadPreset_def preset_gains_def GetPresets_def)

theorem LoadPreset_unknown_noop_witness:
  "''metal'' \<notin> set GetPresets \<and> LoadPreset (NewEqualizer 44100) ''metal'' = NewEqualizer 44100"
proof -
  have h: "''metal'' \<notin> set GetPresets" by (simp add: GetPresets_def)
  from LoadPreset_unknown_noop[OF h] show ?thesis using h by simp
qed
























lemma angle_8000_48000: "2 * pi * 8000 / real_of_int 48000 = pi / 3"
  by simp


section \<open>Replay gain\<close>






section \<open>Crossfader\<close>





section \<open>Player\<close>

lemma loaded_eq:
  "loaded =
     \<lparr>state = StateStopped,
      currentTrack = Some \<lparr>FilePath = ''song.mp3'', Duration = 10000000000\<rparr>,
      nextTrack = None, position = 0, duration = 10000000000,
      decoder = Some song_decoder, nextDecoder = None,
      output_open = True, prebuffer_len = 0,
      playing = None, stop = None, seekRequest = None,
      gapless = True, fadeOnPause = True, fadeDuration = 200000000,
      effects = [Notify EventTrackChanged
                   (TrackData (Some \<lparr>FilePath = ''song.mp3'', Duration = 10000000000\<rparr>))]\<rparr>"
  by (simp add: loaded_def Load_def NewPlayer_def disk_def song_track_def setState_def emit_def
        song_decoder_def Let_def)

text \<open>
  C1, as amended. With a decoder loaded, \<open>Seek(pos)\<close> returns an error exactly when
  \<open>pos < 0\<close> or \<open>pos > duration\<close>, and then the player is unchanged. For
  \<open>0 \<le> pos \<le> duration\<close> it returns nil without blocking and changes neither the state
  nor the position; the request is stored only if no earlier request is pending (a
  pending request is kept and the new one is dropped). When a stored request is
  serviced, by the playback loop or inside \<open>processAudio\<close>, and the decoder's \<open>Seek\<close>
  succeeds, the reported position becomes \<open>pos\<close> and the state is unchanged.
\<close>

theorem Seek_range_and_service:
  assumes "decoder p = Some d"
  shows "(fst (Seek p pos) \<noteq> None \<longleftrightarrow> pos < 0 \<or> pos > duration p) \<and>
         (pos < 0 \<or> pos > duration p \<longrightarrow> snd (Seek p pos) = p) \<and>
         (0 \<le> pos \<and> pos \<le> duration p \<longrightarrow>
            snd (Seek p pos) =
              p\<lparr>seekRequest := (case seekRequest p of None \<Rightarrow> Some pos | Some q \<Rightarrow> Some q)\<rparr> \<and>
            GetState (snd (Seek p pos)) = GetState p \<and>
            GetPosition (snd (Seek p pos)) = GetPosition p) \<and>
         (0 \<le> pos \<and> pos \<le> duration p \<and> seekRequest p = None \<and> dec_seek_ok d pos \<longrightarrow>
            (\<exists>p'. loop_seek (snd (Seek p pos)) = Some p' \<and>
                  GetPosition p' = pos \<and> GetState p' = GetState p \<and> seekRequest p' = None) \<and>
            (\<exists>p'. processAudio_seek d (snd (Seek p pos)) = Some p' \<and>
                  GetPosition p' = pos \<and> GetState p' = GetState p \<and> seekRequest p' = None))"
proof -
  have err: "fst (Seek p pos) \<noteq> None \<longleftrightarrow> pos < 0 \<or> pos > duration p"
    using assms by (simp add: Seek_def)
  have rej: "snd (Seek p pos) = p" if "pos < 0 \<or> pos > duration p"
    using that assms by (auto simp: Seek_def)
  have acc: "snd (Seek p pos) =
               p\<lparr>seekRequest := (case seekRequest p of None \<Rightarrow> Some pos | Some q \<Rightarrow> Some q)\<rparr>"
    if "0 \<le> pos \<and> pos \<le> duration p"
    using that assms by (simp add: Seek_def try_send_def)
  have svc1: "\<exists>p'. loop_seek (snd (Seek p pos)) = Some p' \<and>
                  GetPosition p' = pos \<and> GetState p' = GetState p \<and> seekRequest p' = None"
    if "0 \<le> pos \<and> pos \<le> duration p" "seekRequest p = None" "dec_seek_ok d pos"
    using that assms
    by (simp add: acc loop_seek_def emit_def GetPosition_def GetState_def)
  have svc2: "\<exists>p'. processAudio_seek d (snd (Seek p pos)) = Some p' \<and>
                  GetPosition p' = pos \<and> GetState p' = GetState p \<and> seekRequest p' = None"
    if "0 \<le> pos \<and> pos \<le> duration p" "seekRequest p = None" "dec_seek_ok d pos"
    using that assms
    by (simp add: acc processAudio_seek_def emit_def GetPosition_def GetState_def)
  show ?thesis
    using err rej acc svc1 svc2 by (simp add: GetPosition_def GetState_def)
qed

text \<open>
  On the loaded ten-second song: a seek to 4 s is accepted and, once serviced, the
  position is 4 s and the state is still Stopped; a seek to 11 s is rejected and
  changes nothing.
\<close>

theorem Seek_range_and_service_witness:
  "decoder loaded = Some song_decoder \<and>
   fst (Seek loaded 4000000000) = None \<and>
   map_option GetPosition (loop_seek (snd (Seek loaded 4000000000))) = Some 4000000000 \<and>
   map_option GetState (loop_seek (snd (Seek loaded 4000000000))) = Some StateStopped \<and>
   fst (Seek loaded 11000000000) \<noteq> None \<and>
   snd (Seek loaded 11000000000) = loaded"
proof -
  have d: "decoder loaded = Some song_decoder" by (simp add: loaded_eq)
  have facts: "duration loaded = 10000000000" "seekRequest loaded = None"
    "dec_seek_ok song_decoder 4000000000" "GetState loaded = StateStopped"
    by (simp_all add: loaded_eq song_decoder_def GetState_def)
  from Seek_range_and_service[OF d, of 4000000000] facts
  have a: "fst (Seek loaded 4000000000) = None"
    and b: "\<exists>p'. loop_seek (snd (Seek loaded 4000000000)) = Some p' \<and>
                 GetPosition p' = 4000000000 \<and> GetState p' = StateStopped"
    by auto
  from Seek_range_and_service[OF d, of 11000000000] facts
  have c: "fst (Seek loaded 11000000000) \<noteq> None" "snd (Seek loaded 11000000000) = loaded"
    by auto
  show ?thesis using d a b c by auto
qed

text \<open>
  C1 as stated fails. A seek to 3 s and then a seek to 7 s, both in range and both
  returning nil, before the playback loop runs: the loop services the request for
  3 s, the later request was dropped, and nothing is left pending. The reported
  position after servicing is 3 s, not 7 s: the earliest pending request wins.
\<close>

theorem Seek_second_request_dropped:
  "fst (Seek (snd (Seek loaded 3000000000)) 7000000000) = None \<and>
   seekRequest two_seeks = Some 3000000000 \<and>
   map_option GetPosition (loop_seek two_seeks) = Some 3000000000 \<and>
   map_option seekRequest (loop_seek two_seeks) = Some None \<and>
   map_option GetPosition (loop_seek two_seeks) \<noteq> Some 7000000000"
  by (simp add: two_seeks_def loaded_eq Seek_def try_send_def loop_seek_def emit_def
        song_decoder_def GetPosition_def)

text \<open>
  C2, as amended. \<open>Play()\<close> on a player in state Playing that has a decoder loaded
  returns \<open>ErrAlreadyPlaying\<close> and leaves the player unchanged; with no decoder loaded
  \<open>Play()\<close> returns \<open>ErrNoTrackLoaded\<close> whatever the state, also leaving the player
  unchanged. \<open>Pause()\<close> on a player that is not in state Playing returns
  \<open>ErrNotPlaying\<close> and leaves the player unchanged.
\<close>

theorem Play_Pause_wrong_state:
  "(state p = StatePlaying \<and> decoder p \<noteq> None \<longrightarrow> Play p = Some (Some ErrAlreadyPlaying, p)) \<and>
   (decoder p = None \<longrightarrow> Play p = Some (Some ErrNoTrackLoaded, p)) \<and>
   (state p \<noteq> StatePlaying \<longrightarrow> Pause p = (Some ErrNotPlaying, p))"
  by (auto simp: Play_def Pause_def)

lemma playing_eq:
  "Play loaded =
     Some (None, loaded\<lparr>state := StatePlaying, playing := Some True,
                        effects := effects loaded @
                          [Notify EventStateChanged (StateData StatePlaying), OutputResume]\<rparr>)"
  by (simp add: loaded_eq Play_def setState_def emit_def Let_def)

text \<open>
  The loaded song, played: a second \<open>Play()\<close> returns \<open>ErrAlreadyPlaying\<close>. The loaded
  song, not yet played: \<open>Pause()\<close> returns \<open>ErrNotPlaying\<close>. A new player: \<open>Play()\<close>
  returns \<open>ErrNoTrackLoaded\<close>.
\<close>

theorem Play_Pause_wrong_state_witness:
  "state (snd (the (Play loaded))) = StatePlaying \<and>
   decoder (snd (the (Play loaded))) \<noteq> None \<and>
   Play (snd (the (Play loaded))) = Some (Some ErrAlreadyPlaying, snd (the (Play loaded))) \<and>
   state loaded \<noteq> StatePlaying \<and>
   Pause loaded = (Some ErrNotPlaying, loaded) \<and>
   decoder (NewPlayer True) = None \<and>
   Play (NewPlayer True) = Some (Some ErrNoTrackLoaded, NewPlayer True)"
proof -
  have a: "state (snd (the (Play loaded))) = StatePlaying"
    "decoder (snd (the (Play loaded))) \<noteq> None"
    by (simp_all add: playing_eq) (simp add: loaded_eq)
  have b: "state loaded \<noteq> StatePlaying" by (simp add: loaded_eq)
  have c: "decoder (NewPlayer True) = None" by (simp add: NewPlayer_def)
  show ?thesis
    using Play_Pause_wrong_state[of "snd (the (Play loaded))"]
      Play_Pause_wrong_state[of loaded] Play_Pause_wrong_state[of "NewPlayer True"] a b c
    by simp
qed

text \<open>
  C2 as stated fails. The song is playing and \<open>Load\<close> is called with a file no decoder
  supports: \<open>Load\<close> closes and clears the current decoder before it tries to create
  the new one, and returns the error without touching the state. The player is then
  in state Playing with no decoder, and \<open>Play()\<close> returns \<open>ErrNoTrackLoaded\<close>, not
  \<open>ErrAlreadyPlaying\<close>.
\<close>

lemma playing_failed_load_eq:
  "Load disk (snd (the (Play loaded))) (Some notes_track) =
     (Some (ErrCreateDecoder ErrUnsupportedFormat),
      loaded\<lparr>state := StatePlaying, playing := Some True, decoder := None,
             effects := effects loaded @
               [Notify EventStateChanged (StateData StatePlaying), OutputResume,
                DecoderClose song_decoder]\<rparr>)"
proof -
  have d: "decoder loaded = Some song_decoder" by (simp add: loaded_eq)
  show ?thesis
    by (simp add: playing_eq Load_def disk_def notes_track_def emit_def d)
qed

theorem Play_while_Playing_without_decoder:
  "fst (Load disk (snd (the (Play loaded))) (Some notes_track))
     = Some (ErrCreateDecoder ErrUnsupportedFormat) \<and>
   GetState playing_failed_load = StatePlaying \<and>
   decoder playing_failed_load = None \<and>
   Play playing_failed_load = Some (Some ErrNoTrackLoaded, playing_failed_load) \<and>
   Play playing_failed_load \<noteq> Some (Some ErrAlreadyPlaying, playing_failed_load)"
proof -
  have l: "fst (Load disk (snd (the (Play loaded))) (Some notes_track))
             = Some (ErrCreateDecoder ErrUnsupportedFormat)"
    by (simp add: playing_failed_load_eq)
  have s: "GetState playing_failed_load = StatePlaying" "decoder playing_failed_load = None"
    by (simp_all add: playing_failed_load_def playing_failed_load_eq GetState_def)
  have p: "Play playing_failed_load = Some (Some ErrNoTrackLoaded, playing_failed_load)"
    using s(2) by (simp add: Play_def)
  show ?thesis using l s p by simp
qed

end
